theory Spec2Isabelle
  imports Main "HOL-Library.Word"
begin

section \<open>Video capture with backend probing (modules/video\_capture.py)\<close>

text \<open>
  The module wraps a capture device of the OpenCV library. Everything OpenCV, numpy,
  pygrabber, the operating system and the caller's callback decide is an explicit input
  of the model:
  \<^item> \<open>platform.system()\<close> is a value of type \<open>platform\<close>;
  \<^item> the device list of \<open>FilterGraph().get_input_devices()\<close> is a list of names;
  \<^item> what \<open>cv2.VideoCapture(dev_id, backend)\<close> does at each attempt (raise, or return
    an object that is opened or not) and whether \<open>set\<close> raises on a device are the two
    fields of \<open>cv2_env\<close>;
  \<^item> what happens around one call of \<open>read()\<close> is a \<open>read_env\<close>: what a real device
    answers, whether numpy gets the memory it asks for, and what the callback does when
    it is called (it raises or returns, and it may write into the array it is given).

  Every method returns its Python result (an exception is \<open>Inl\<close>), the calls it made on
  its collaborators in order (a list of events), and the object after the call.
  \<open>isOpened()\<close> and \<open>release()\<close> of a handle do not raise; printing is left out;
  all exceptions are subclasses of \<open>Exception\<close>; a callback does not call back into
  the capturer, and taking its truth value does not raise. An array is modelled by its contents: the one array object that
  \<open>read()\<close> stores, hands to the callback and returns is one value, and what the
  callback writes into it shows in what is stored and returned.
\<close>

subsection \<open>Values of the collaborators\<close>

datatype exn = ValueError string | MemoryError string | Exception string

datatype platform = Windows | Darwin | Linux

datatype backend = CAP_ANY | CAP_DSHOW | CAP_AVFOUNDATION

datatype cap_prop = CAP_PROP_FRAME_WIDTH | CAP_PROP_FRAME_HEIGHT | CAP_PROP_FPS

text \<open>A numpy array of dtype uint8: its shape and its row-major buffer.\<close>

record ndarray =
  shape :: "nat list"
  data :: "8 word list"

text \<open>The largest value of numpy's index type (a 64-bit build).\<close>

definition NPY_MAX_INTP :: int where
  "NPY_MAX_INTP = 2 ^ 63 - 1"

text \<open>
  The size check numpy makes when it creates an array, dimension by dimension, \<open>n\<close>
  being the byte count so far: a zero dimension is skipped, a negative one is refused,
  and so is a byte count beyond the index type.
\<close>

fun np_nbytes :: "int list \<Rightarrow> int \<Rightarrow> exn + int" where
  "np_nbytes [] n = Inr n"
| "np_nbytes (d # ds) n =
     (if d = 0 then np_nbytes ds n
      else if d < 0 then Inl (ValueError ''negative dimensions are not allowed'')
      else if NPY_MAX_INTP < n * d then Inl (ValueError ''array is too big'')
      else np_nbytes ds (n * d))"

text \<open>
  \<open>np.zeros((h, w, c), dtype=np.uint8)\<close>. A dimension outside the index type is
  refused, then the size check is made, then the buffer is asked of the host:
  \<open>alloc n\<close> says whether the host grants \<open>n\<close> bytes at this call. The message
  texts are shortened.
\<close>

definition np_zeros :: "(nat \<Rightarrow> bool) \<Rightarrow> int \<Rightarrow> int \<Rightarrow> int \<Rightarrow> exn + ndarray" where
  "np_zeros alloc h w c =
     (if (\<exists>d \<in> set [h, w, c]. NPY_MAX_INTP < d \<or> d < - NPY_MAX_INTP - 1)
      then Inl (ValueError ''Maximum allowed dimension exceeded'')
      else
        (case np_nbytes [h, w, c] 1 of
           Inl e \<Rightarrow> Inl e
         | Inr n \<Rightarrow>
             if alloc (nat (h * w * c))
             then Inr \<lparr>shape = [nat h, nat w, nat c], data = replicate (nat h * nat w * nat c) 0\<rparr>
             else Inl (MemoryError ''Unable to allocate'')))"

subsection \<open>class DummyCamera\<close>

record DummyCamera =
  width :: int
  height :: int
  is_open :: bool

definition DummyCamera_init :: "int \<Rightarrow> int \<Rightarrow> DummyCamera" where
  "DummyCamera_init w h = \<lparr>width = w, height = h, is_open = True\<rparr>"

definition DummyCamera_isOpened :: "DummyCamera \<Rightarrow> bool" where
  "DummyCamera_isOpened d = is_open d"

definition DummyCamera_read :: "(nat \<Rightarrow> bool) \<Rightarrow> DummyCamera \<Rightarrow> exn + (bool \<times> ndarray option)" where
  "DummyCamera_read alloc d =
     (case np_zeros alloc (height d) (width d) 3 of
        Inl e \<Rightarrow> Inl e
      | Inr frame \<Rightarrow> Inr (True, Some frame))"

definition DummyCamera_set :: "DummyCamera \<Rightarrow> cap_prop \<Rightarrow> int \<Rightarrow> bool" where
  "DummyCamera_set d p v = True"

definition DummyCamera_release :: "DummyCamera \<Rightarrow> DummyCamera" where
  "DummyCamera_release d = d\<lparr>is_open := False\<rparr>"

subsection \<open>Callbacks\<close>

text \<open>
  A callback is a Python object with a name and a truth value: \<open>read()\<close> tests
  \<open>if self.frame_callback:\<close>, and a callable object may define \<open>__bool__\<close> or
  \<open>__len__\<close> (functions, lambdas and bound methods are true).
\<close>

datatype callback = Callback string bool

fun truthy :: "callback \<Rightarrow> bool" where
  "truthy (Callback name b) = b"

subsection \<open>The capture handle: a cv2.VideoCapture object or a DummyCamera\<close>

text \<open>
  A \<open>cv2.VideoCapture\<close> object as the module sees it: which attempt of the probe loop
  made it, the arguments it was made with, and what \<open>isOpened()\<close> answers.
\<close>

record VideoCapture =
  vc_attempt :: nat
  vc_index :: int
  vc_backend :: backend
  vc_opened :: bool

datatype handle = Device VideoCapture | Dummy DummyCamera

datatype open_outcome = OpenRaises exn | OpenReturns bool

record cv2_env =
  cv2_VideoCapture :: "nat \<Rightarrow> int \<Rightarrow> backend \<Rightarrow> open_outcome"
  cv2_set :: "VideoCapture \<Rightarrow> cap_prop \<Rightarrow> int \<Rightarrow> exn option"

text \<open>
  What surrounds one call of \<open>read()\<close>: the pair a real device's \<open>read()\<close> returns,
  whether the host grants numpy a buffer of a given size, and, for the callback if it
  is called on a frame, the exception it raises (\<open>None\<close>: it returns) and what it
  leaves in the array it was given.
\<close>

record read_env =
  dev_read :: "bool \<times> ndarray option"
  np_alloc :: "nat \<Rightarrow> bool"
  cb_raises :: "callback \<Rightarrow> ndarray option \<Rightarrow> exn option"
  cb_paints :: "callback \<Rightarrow> ndarray \<Rightarrow> ndarray"

definition handle_isOpened :: "handle \<Rightarrow> bool" where
  "handle_isOpened hnd =
     (case hnd of Device v \<Rightarrow> vc_opened v | Dummy d \<Rightarrow> DummyCamera_isOpened d)"

definition handle_release :: "handle \<Rightarrow> handle" where
  "handle_release hnd =
     (case hnd of
        Device v \<Rightarrow> Device (v\<lparr>vc_opened := False\<rparr>)
      | Dummy d \<Rightarrow> Dummy (DummyCamera_release d))"

definition handle_set :: "cv2_env \<Rightarrow> handle \<Rightarrow> cap_prop \<Rightarrow> int \<Rightarrow> exn + bool" where
  "handle_set env hnd p v =
     (case hnd of
        Device c \<Rightarrow> (case cv2_set env c p v of Some e \<Rightarrow> Inl e | None \<Rightarrow> Inr True)
      | Dummy d \<Rightarrow> Inr (DummyCamera_set d p v))"

definition handle_read :: "read_env \<Rightarrow> handle \<Rightarrow> exn + (bool \<times> ndarray option)" where
  "handle_read renv hnd =
     (case hnd of
        Device v \<Rightarrow> Inr (dev_read renv)
      | Dummy d \<Rightarrow> DummyCamera_read (np_alloc renv) d)"

text \<open>
  Calling the callback on a frame: whether it raises, and the frame as the callback
  leaves it (\<open>None\<close> is not an array and stays \<open>None\<close>).
\<close>

definition call :: "read_env \<Rightarrow> callback \<Rightarrow> ndarray option \<Rightarrow> exn option \<times> ndarray option" where
  "call renv cb frame = (cb_raises renv cb frame, map_option (cb_paints renv cb) frame)"

subsection \<open>The calls a method makes\<close>

text \<open>\<open>EvCallback\<close> carries the frame as it is when the callback is called.\<close>

datatype event =
    EvOpen nat int backend
  | EvRelease handle
  | EvSet handle cap_prop int
  | EvRead handle
  | EvCallback callback "ndarray option"

subsection \<open>class VideoCapturer\<close>

record VideoCapturer =
  device_index :: int
  frame_callback :: "callback option"
  current_frame :: "ndarray option"
  frame_ready :: bool
  is_running :: bool
  cap :: "handle option"
  graph :: "string list option"

text \<open>
  \<open>__init__\<close>: on Windows the index is compared with the number of input devices;
  \<open>graph\<close> holds the devices the FilterGraph enumerates.
\<close>

definition VideoCapturer_init :: "platform \<Rightarrow> string list \<Rightarrow> int \<Rightarrow> exn + VideoCapturer" where
  "VideoCapturer_init plat devices idx =
     (let self = \<lparr>device_index = idx, frame_callback = None, current_frame = None,
                  frame_ready = False, is_running = False, cap = None, graph = None\<rparr>
      in if plat = Windows then
           (let self = self\<lparr>graph := Some devices\<rparr>
            in if device_index self \<ge> int (length devices)
               then Inl (ValueError ''Invalid device index'')
               else Inr self)
         else Inr self)"

text \<open>The two lists of \<open>start\<close>, by platform.\<close>

definition capture_methods :: "platform \<Rightarrow> int \<Rightarrow> (int \<times> backend) list" where
  "capture_methods plat idx =
     (if plat = Windows then
        [(idx, CAP_DSHOW), (idx, CAP_ANY), (- 1, CAP_ANY), (0, CAP_ANY)]
      else
        [(idx, CAP_ANY), (idx, CAP_AVFOUNDATION), (0, CAP_ANY), (0, CAP_AVFOUNDATION)])"

text \<open>
  The probe loop. \<open>k\<close> counts the attempts, \<open>cur\<close> is \<open>self.cap\<close>. An attempt that raises
  leaves \<open>self.cap\<close> as it was and goes on; an object that is not opened is stored,
  released, and the loop goes on; an opened one ends the loop.
\<close>

fun probe :: "cv2_env \<Rightarrow> nat \<Rightarrow> (int \<times> backend) list \<Rightarrow> handle option \<Rightarrow> handle option \<times> event list" where
  "probe env k [] cur = (cur, [])"
| "probe env k ((dev_id, backend) # rest) cur =
     (case cv2_VideoCapture env k dev_id backend of
        OpenRaises e \<Rightarrow>
          (case probe env (Suc k) rest cur of
             (cur', evs) \<Rightarrow> (cur', EvOpen k dev_id backend # evs))
      | OpenReturns opened \<Rightarrow>
          (let v = \<lparr>vc_attempt = k, vc_index = dev_id, vc_backend = backend, vc_opened = opened\<rparr>
           in if handle_isOpened (Device v) then (Some (Device v), [EvOpen k dev_id backend])
              else (case probe env (Suc k) rest (Some (handle_release (Device v))) of
                      (cur', evs) \<Rightarrow> (cur', EvOpen k dev_id backend # EvRelease (Device v) # evs))))"

text \<open>The body of the outer \<open>try\<close> of \<open>start\<close>: it may raise.\<close>

definition start_try ::
  "cv2_env \<Rightarrow> platform \<Rightarrow> int \<Rightarrow> int \<Rightarrow> int \<Rightarrow> VideoCapturer \<Rightarrow> (exn + bool) \<times> event list \<times> VideoCapturer" where
  "start_try env plat w h fps self =
     (case probe env 0 (capture_methods plat (device_index self)) (cap self) of
        (cur, evs) \<Rightarrow>
          (let self1 = self\<lparr>cap := cur\<rparr>;
               self2 = (if cap self1 = None \<or> \<not> handle_isOpened (the (cap self1))
                        then self1\<lparr>cap := Some (Dummy (DummyCamera_init w h))\<rparr>
                        else self1);
               hnd = the (cap self2);
               set1 = EvSet hnd CAP_PROP_FRAME_WIDTH w;
               set2 = EvSet hnd CAP_PROP_FRAME_HEIGHT h;
               set3 = EvSet hnd CAP_PROP_FPS fps
           in case handle_set env hnd CAP_PROP_FRAME_WIDTH w of
                Inl e \<Rightarrow> (Inl e, evs @ [set1], self2)
              | Inr r1 \<Rightarrow>
                 (case handle_set env hnd CAP_PROP_FRAME_HEIGHT h of
                    Inl e \<Rightarrow> (Inl e, evs @ [set1, set2], self2)
                  | Inr r2 \<Rightarrow>
                     (case handle_set env hnd CAP_PROP_FPS fps of
                        Inl e \<Rightarrow> (Inl e, evs @ [set1, set2, set3], self2)
                      | Inr r3 \<Rightarrow>
                          (Inr True, evs @ [set1, set2, set3], self2\<lparr>is_running := True\<rparr>)))))"

text \<open>\<open>start\<close>: the handler of the outer \<open>try\<close> releases what \<open>self.cap\<close> holds.\<close>

definition VideoCapturer_start ::
  "cv2_env \<Rightarrow> platform \<Rightarrow> int \<Rightarrow> int \<Rightarrow> int \<Rightarrow> VideoCapturer \<Rightarrow> (exn + bool) \<times> event list \<times> VideoCapturer" where
  "VideoCapturer_start env plat w h fps self =
     (case start_try env plat w h fps self of
        (Inr r, evs, self') \<Rightarrow> (Inr r, evs, self')
      | (Inl e, evs, self') \<Rightarrow>
          (case cap self' of
             Some hnd \<Rightarrow> (Inr False, evs @ [EvRelease hnd], self'\<lparr>cap := Some (handle_release hnd)\<rparr>)
           | None \<Rightarrow> (Inr False, evs, self')))"

text \<open>
  \<open>read\<close>. The frame the handle returns is stored, then the callback is called if
  \<open>self.frame_callback\<close> is true, then the frame is returned: one array object
  throughout, so what the callback left in it is what is stored and returned.
\<close>

definition VideoCapturer_read ::
  "read_env \<Rightarrow> VideoCapturer \<Rightarrow> (exn + bool \<times> ndarray option) \<times> event list \<times> VideoCapturer" where
  "VideoCapturer_read renv self =
     (if \<not> is_running self \<or> cap self = None then (Inr (False, None), [], self)
      else
        (let hnd = the (cap self)
         in case handle_read renv hnd of
              Inl e \<Rightarrow> (Inl e, [EvRead hnd], self)
            | Inr (ret, frame) \<Rightarrow>
                if ret then
                  (let self' = self\<lparr>current_frame := frame\<rparr>
                   in if (case frame_callback self' of None \<Rightarrow> False | Some cb \<Rightarrow> truthy cb) then
                        (let cb = the (frame_callback self')
                         in case call renv cb frame of
                              (Some e, frame') \<Rightarrow>
                                (Inl e, [EvRead hnd, EvCallback cb frame],
                                 self'\<lparr>current_frame := frame'\<rparr>)
                            | (None, frame') \<Rightarrow>
                                (Inr (True, frame'), [EvRead hnd, EvCallback cb frame],
                                 self'\<lparr>current_frame := frame'\<rparr>))
                      else (Inr (True, frame), [EvRead hnd], self'))
                else (Inr (False, None), [EvRead hnd], self)))"

definition VideoCapturer_release :: "VideoCapturer \<Rightarrow> (exn + unit) \<times> event list \<times> VideoCapturer" where
  "VideoCapturer_release self =
     (if is_running self \<and> cap self \<noteq> None then
        (Inr (), [EvRelease (the (cap self))], self\<lparr>is_running := False, cap := None\<rparr>)
      else (Inr (), [], self))"

definition VideoCapturer_set_frame_callback :: "callback \<Rightarrow> VideoCapturer \<Rightarrow> VideoCapturer" where
  "VideoCapturer_set_frame_callback callback self = self\<lparr>frame_callback := Some callback\<rparr>"

subsection \<open>Sequences of calls\<close>


text \<open>
  The objects a caller can get: a constructed one, and what any public method leaves
  behind, whatever the collaborators answer and whether the method returns or raises.
\<close>

inductive reachable :: "VideoCapturer \<Rightarrow> bool" where
  construct: "VideoCapturer_init plat devices idx = Inr self \<Longrightarrow> reachable self"
| start: "reachable self \<Longrightarrow> reachable (snd (snd (VideoCapturer_start env plat w h fps self)))"
| read: "reachable self \<Longrightarrow> reachable (snd (snd (VideoCapturer_read renv self)))"
| release: "reachable self \<Longrightarrow> reachable (snd (snd (VideoCapturer_release self)))"
| set_frame_callback: "reachable self \<Longrightarrow> reachable (VideoCapturer_set_frame_callback cb self)"

subsection \<open>Vocabulary of the specification\<close>


text \<open>A probe fails when the open raises or the object it returns is not opened.\<close>

definition probe_fails :: "open_outcome \<Rightarrow> bool" where
  "probe_fails out = (case out of OpenRaises e \<Rightarrow> True | OpenReturns opened \<Rightarrow> \<not> opened)"




text \<open>
  The shape the specification gives the probe list on every platform: the requested
  index with the native backend, the same index with the generic backend, then the
  fallback indices \<open>-1\<close> (no preference) and \<open>0\<close>, the backends never getting more
  specific along the list (the generic backend is the least specific).
\<close>

definition backend_specificity :: "backend \<Rightarrow> nat" where
  "backend_specificity b = (if b = CAP_ANY then 0 else 1)"

definition universal_shape :: "backend \<Rightarrow> int \<Rightarrow> (int \<times> backend) list \<Rightarrow> bool" where
  "universal_shape native idx cs =
     (case cs of
        first # second # fallbacks \<Rightarrow>
          first = (idx, native) \<and> second = (idx, CAP_ANY) \<and> map fst fallbacks = [- 1, 0] \<and>
          sorted (rev (map (\<lambda>c. backend_specificity (snd c)) cs))
      | _ \<Rightarrow> False)"

subsection \<open>Concrete hosts and capturers\<close>

text \<open>
  A host where every open raises, one where the third attempt opens a device, and one
  where no attempt does and the second and the last return an object that is not
  opened.
\<close>

definition env_no_camera :: cv2_env where
  "env_no_camera =
     \<lparr>cv2_VideoCapture = (\<lambda>k i b. OpenRaises (Exception ''no camera'')),
      cv2_set = (\<lambda>v p x. None)\<rparr>"

definition env_third_opens :: cv2_env where
  "env_third_opens =
     \<lparr>cv2_VideoCapture = (\<lambda>k i b. if k = 0 then OpenRaises (Exception ''busy'')
                                   else if k = 1 then OpenReturns False else OpenReturns True),
      cv2_set = (\<lambda>v p x. None)\<rparr>"

definition env_none_opens :: cv2_env where
  "env_none_opens =
     \<lparr>cv2_VideoCapture = (\<lambda>k i b. if k = 1 \<or> k = 3 then OpenReturns False
                                   else OpenRaises (Exception ''busy'')),
      cv2_set = (\<lambda>v p x. None)\<rparr>"

text \<open>A host whose device opens at once and then refuses the frame width.\<close>

definition env_set_raises :: cv2_env where
  "env_set_raises =
     \<lparr>cv2_VideoCapture = (\<lambda>k i b. OpenReturns True),
      cv2_set = (\<lambda>v p x. if p = CAP_PROP_FRAME_WIDTH then Some (Exception ''out of memory'') else None)\<rparr>"

text \<open>
  Around a read: nothing happens (the device has no frame, memory is granted, a
  callback returns and writes nothing); the callback raises; the callback fills the
  frame with 255; the host has no memory.
\<close>

definition calm :: read_env where
  "calm = \<lparr>dev_read = (False, None), np_alloc = (\<lambda>n. True),
           cb_raises = (\<lambda>cb frame. None), cb_paints = (\<lambda>cb a. a)\<rparr>"

definition callback_raises :: read_env where
  "callback_raises = calm\<lparr>cb_raises := (\<lambda>cb frame. Some (Exception ''callback failed''))\<rparr>"



text \<open>A function as callback, and a callable object whose truth value is false.\<close>

definition log_callback :: callback where
  "log_callback = Callback ''log'' True"


definition fresh_capturer :: VideoCapturer where
  "fresh_capturer = projr (VideoCapturer_init Linux [] 0)"

definition dummy_capturer :: VideoCapturer where
  "dummy_capturer = snd (snd (VideoCapturer_start env_no_camera Linux 2 1 60 fresh_capturer))"

definition device_capturer :: VideoCapturer where
  "device_capturer =
     snd (snd (VideoCapturer_start env_third_opens Windows 2 1 60
       (projr (VideoCapturer_init Windows [''cam0'', ''cam1''] 1))))"

section \<open>Properties\<close>

subsection \<open>The probe loop, attempt by attempt\<close>

lemma probe_raises:
  "cv2_VideoCapture env k i b = OpenRaises e \<Longrightarrow>
   probe env k ((i, b) # rest) cur =
     (fst (probe env (Suc k) rest cur), EvOpen k i b # snd (probe env (Suc k) rest cur))"
  by (simp add: case_prod_beta)

lemma probe_unopened:
  "cv2_VideoCapture env k i b = OpenReturns False \<Longrightarrow>
   probe env k ((i, b) # rest) cur =
     (let v = \<lparr>vc_attempt = k, vc_index = i, vc_backend = b, vc_opened = False\<rparr>
      in (fst (probe env (Suc k) rest (Some (Device v))),
          EvOpen k i b # EvRelease (Device v) # snd (probe env (Suc k) rest (Some (Device v)))))"
  by (simp add: case_prod_beta handle_isOpened_def handle_release_def Let_def)

lemma probe_fails_cases:
  "probe_fails out \<Longrightarrow> (\<exists>e. out = OpenRaises e) \<or> out = OpenReturns False"
  by (cases out) (simp_all add: probe_fails_def)

lemma probe_first_event:
  "snd (probe env k ((i, b) # rest) cur) \<noteq> [] \<and>
   hd (snd (probe env k ((i, b) # rest) cur)) = EvOpen k i b"
  by (cases "cv2_VideoCapture env k i b") (auto simp: case_prod_beta Let_def)


text \<open>
  The hypothesis of the next two lemmas, one candidate further: if all candidates
  before \<open>Suc j\<close> of \<open>c # cs\<close> fail, so does \<open>c\<close>, and so do those before \<open>j\<close> of \<open>cs\<close>.
\<close>

lemma fails_before_Cons:
  assumes "\<forall>j'<Suc j. probe_fails (cv2_VideoCapture env (k + j') (fst ((c # cs) ! j')) (snd ((c # cs) ! j')))"
  shows "probe_fails (cv2_VideoCapture env k (fst c) (snd c)) \<and>
         (\<forall>j'<j. probe_fails (cv2_VideoCapture env (Suc k + j') (fst (cs ! j')) (snd (cs ! j'))))"
proof (intro conjI allI impI)
  from assms have "probe_fails (cv2_VideoCapture env (k + 0) (fst ((c # cs) ! 0)) (snd ((c # cs) ! 0)))"
    by blast
  then show "probe_fails (cv2_VideoCapture env k (fst c) (snd c))" by simp
next
  fix j' assume "j' < j"
  then have "Suc j' < Suc j" by simp
  with assms
  have "probe_fails (cv2_VideoCapture env (k + Suc j') (fst ((c # cs) ! Suc j')) (snd ((c # cs) ! Suc j')))"
    by blast
  then show "probe_fails (cv2_VideoCapture env (Suc k + j') (fst (cs ! j')) (snd (cs ! j')))"
    by simp
qed

text \<open>A candidate is attempted when all the candidates before it have failed.\<close>

lemma probe_attempts:
  "j < length cs \<Longrightarrow>
   \<forall>j'<j. probe_fails (cv2_VideoCapture env (k + j') (fst (cs ! j')) (snd (cs ! j'))) \<Longrightarrow>
   EvOpen (k + j) (fst (cs ! j)) (snd (cs ! j)) \<in> set (snd (probe env k cs cur))"
proof (induction cs arbitrary: k j cur)
  case Nil
  then show ?case by simp
next
  case (Cons c cs)
  obtain i b where c: "c = (i, b)" by (cases c)
  show ?case
  proof (cases j)
    case 0
    from probe_first_event [of env k i b cs cur]
    have "EvOpen k i b \<in> set (snd (probe env k ((i, b) # cs) cur))"
      by (metis list.set_sel(1))
    with 0 c show ?thesis by simp
  next
    case (Suc j0)
    with Cons.prems(1) have j0: "j0 < length cs" by simp
    from fails_before_Cons [of j0 env k c cs] Cons.prems(2) Suc c
    have head: "probe_fails (cv2_VideoCapture env k i b)"
      and rest: "\<forall>j'<j0. probe_fails (cv2_VideoCapture env (Suc k + j') (fst (cs ! j')) (snd (cs ! j')))"
      by simp_all
    from head consider e where "cv2_VideoCapture env k i b = OpenRaises e"
      | "cv2_VideoCapture env k i b = OpenReturns False"
      using probe_fails_cases by blast
    then show ?thesis
    proof cases
      case 1
      from Cons.IH [OF j0 rest, of cur] show ?thesis
        unfolding c probe_raises [OF 1] using Suc by simp
    next
      case 2
      from Cons.IH [OF j0 rest] show ?thesis
        unfolding c probe_unopened [OF 2] using Suc by (simp add: Let_def)
    qed
  qed
qed

text \<open>Such a candidate's object, when it comes back not opened, is released.\<close>

lemma probe_releases:
  "j < length cs \<Longrightarrow>
   \<forall>j'<j. probe_fails (cv2_VideoCapture env (k + j') (fst (cs ! j')) (snd (cs ! j'))) \<Longrightarrow>
   cv2_VideoCapture env (k + j) (fst (cs ! j)) (snd (cs ! j)) = OpenReturns False \<Longrightarrow>
   EvRelease (Device \<lparr>vc_attempt = k + j, vc_index = fst (cs ! j), vc_backend = snd (cs ! j),
      vc_opened = False\<rparr>) \<in> set (snd (probe env k cs cur))"
proof (induction cs arbitrary: k j cur)
  case Nil
  then show ?case by simp
next
  case (Cons c cs)
  obtain i b where c: "c = (i, b)" by (cases c)
  show ?case
  proof (cases j)
    case 0
    with Cons.prems(3) c have u: "cv2_VideoCapture env k i b = OpenReturns False" by simp
    show ?thesis unfolding c probe_unopened [OF u] using 0 by (simp add: Let_def)
  next
    case (Suc j0)
    with Cons.prems(1) have j0: "j0 < length cs" by simp
    from fails_before_Cons [of j0 env k c cs] Cons.prems(2) Suc c
    have head: "probe_fails (cv2_VideoCapture env k i b)"
      and rest: "\<forall>j'<j0. probe_fails (cv2_VideoCapture env (Suc k + j') (fst (cs ! j')) (snd (cs ! j')))"
      by simp_all
    from Cons.prems(3) Suc
    have this_one: "cv2_VideoCapture env (Suc k + j0) (fst (cs ! j0)) (snd (cs ! j0)) = OpenReturns False"
      by simp
    from head consider e where "cv2_VideoCapture env k i b = OpenRaises e"
      | "cv2_VideoCapture env k i b = OpenReturns False"
      using probe_fails_cases by blast
    then show ?thesis
    proof cases
      case 1
      from Cons.IH [OF j0 rest this_one, of cur] show ?thesis
        unfolding c probe_raises [OF 1] using Suc by simp
    next
      case 2
      from Cons.IH [OF j0 rest this_one] show ?thesis
        unfolding c probe_unopened [OF 2] using Suc by (simp add: Let_def)
    qed
  qed
qed

subsection \<open>The sizes numpy accepts\<close>




subsection \<open>What start, read and release leave behind\<close>

lemma start_events_probe:
  "set (snd (probe env 0 (capture_methods plat (device_index self)) (cap self)))
     \<subseteq> set (fst (snd (VideoCapturer_start env plat w h fps self)))"
  by (auto simp: VideoCapturer_start_def start_try_def Let_def
      split: prod.splits sum.splits option.splits)

lemma start_returns: "\<not> isl (fst (VideoCapturer_start env plat w h fps self))"
  by (auto simp: VideoCapturer_start_def split: prod.splits sum.splits option.splits)

lemma start_cap: "cap (snd (snd (VideoCapturer_start env plat w h fps self))) \<noteq> None"
  by (auto simp: VideoCapturer_start_def start_try_def Let_def
      split: prod.splits sum.splits option.splits)


lemma read_keeps:
  "is_running (snd (snd (VideoCapturer_read renv self))) = is_running self \<and>
   cap (snd (snd (VideoCapturer_read renv self))) = cap self \<and>
   frame_callback (snd (snd (VideoCapturer_read renv self))) = frame_callback self"
  by (auto simp: VideoCapturer_read_def Let_def split: sum.splits option.splits prod.splits)



lemma running_has_handle: "reachable self \<Longrightarrow> is_running self \<longrightarrow> cap self \<noteq> None"
proof (induction rule: reachable.induct)
  case (construct plat devices idx self)
  then show ?case by (auto simp: VideoCapturer_init_def Let_def split: if_splits)
next
  case (start self env plat w h fps)
  show ?case using start_cap by blast
next
  case (read self renv)
  then show ?case by (simp add: read_keeps)
next
  case (release self)
  then show ?case by (auto simp: VideoCapturer_release_def split: if_splits)
next
  case (set_frame_callback self cb)
  then show ?case by (simp add: VideoCapturer_set_frame_callback_def)
qed

subsection \<open>The concrete capturers, computed\<close>

text \<open>
  When \<open>set\<close> raises, the handler of \<open>start\<close> releases the device and \<open>start\<close>
  returns \<open>False\<close>; the capturer is not running.
\<close>

lemma start_set_raises:
  "VideoCapturer_start env_set_raises Linux 2 1 60 fresh_capturer =
     (Inr False,
      [EvOpen 0 0 CAP_ANY,
       EvSet (Device \<lparr>vc_attempt = 0, vc_index = 0, vc_backend = CAP_ANY, vc_opened = True\<rparr>)
         CAP_PROP_FRAME_WIDTH 2,
       EvRelease (Device \<lparr>vc_attempt = 0, vc_index = 0, vc_backend = CAP_ANY, vc_opened = True\<rparr>)],
      fresh_capturer\<lparr>cap :=
        Some (Device \<lparr>vc_attempt = 0, vc_index = 0, vc_backend = CAP_ANY, vc_opened = False\<rparr>)\<rparr>)"
  by (simp add: fresh_capturer_def VideoCapturer_init_def VideoCapturer_start_def start_try_def
      capture_methods_def env_set_raises_def handle_set_def handle_isOpened_def
      handle_release_def Let_def)

lemma fresh_capturer_eq:
  "fresh_capturer =
     \<lparr>device_index = 0, frame_callback = None, current_frame = None, frame_ready = False,
      is_running = False, cap = None, graph = None\<rparr>"
  by (simp add: fresh_capturer_def VideoCapturer_init_def)

lemma fresh_capturer_init: "VideoCapturer_init Linux [] 0 = Inr fresh_capturer"
  by (simp add: fresh_capturer_def VideoCapturer_init_def)

lemma dummy_capturer_eq:
  "dummy_capturer =
     \<lparr>device_index = 0, frame_callback = None, current_frame = None, frame_ready = False,
      is_running = True, cap = Some (Dummy \<lparr>width = 2, height = 1, is_open = True\<rparr>),
      graph = None\<rparr>"
  by (simp add: dummy_capturer_def fresh_capturer_eq VideoCapturer_start_def start_try_def
      capture_methods_def env_no_camera_def handle_set_def DummyCamera_init_def Let_def)

lemma device_capturer_eq:
  "device_capturer =
     \<lparr>device_index = 1, frame_callback = None, current_frame = None, frame_ready = False,
      is_running = True,
      cap = Some (Device \<lparr>vc_attempt = 2, vc_index = - 1, vc_backend = CAP_ANY, vc_opened = True\<rparr>),
      graph = Some [''cam0'', ''cam1'']\<rparr>"
  by (simp add: device_capturer_def VideoCapturer_init_def VideoCapturer_start_def start_try_def
      capture_methods_def env_third_opens_def handle_set_def handle_isOpened_def
      handle_release_def Let_def)

lemma reachable_dummy_capturer: "reachable dummy_capturer"
  unfolding dummy_capturer_def
  by (intro reachable.start reachable.construct) (rule fresh_capturer_init)

section \<open>The claims\<close>




text \<open>
  C2, as the code has it. On Windows (the platform where devices are enumerated)
  construction fails, with the ValueError for an invalid device, exactly when the index
  is at least the number of devices; for every smaller index, a negative one included,
  it succeeds and yields a capturer that is not running and holds no handle.
\<close>

theorem init_rejects_only_large_index:
  "(isl (VideoCapturer_init Windows devices idx) \<longleftrightarrow> int (length devices) \<le> idx) \<and>
   (int (length devices) \<le> idx \<longrightarrow>
      VideoCapturer_init Windows devices idx = Inl (ValueError ''Invalid device index'')) \<and>
   (idx < int (length devices) \<longrightarrow>
      VideoCapturer_init Windows devices idx =
        Inr \<lparr>device_index = idx, frame_callback = None, current_frame = None,
             frame_ready = False, is_running = False, cap = None, graph = Some devices\<rparr>)"
  by (simp add: VideoCapturer_init_def Let_def)

text \<open>With two devices: indices 5 and 2 are refused, 1 and 0 are accepted.\<close>

theorem init_rejects_only_large_index_witness:
  "VideoCapturer_init Windows [''cam0'', ''cam1''] 5 = Inl (ValueError ''Invalid device index'') \<and>
   VideoCapturer_init Windows [''cam0'', ''cam1''] 2 = Inl (ValueError ''Invalid device index'') \<and>
   \<not> isl (VideoCapturer_init Windows [''cam0'', ''cam1''] 1) \<and>
   \<not> isl (VideoCapturer_init Windows [''cam0'', ''cam1''] 0)"
  using init_rejects_only_large_index [of "[''cam0'', ''cam1'']" 5]
    init_rejects_only_large_index [of "[''cam0'', ''cam1'']" 2]
    init_rejects_only_large_index [of "[''cam0'', ''cam1'']" 1]
    init_rejects_only_large_index [of "[''cam0'', ''cam1'']" 0]
  by simp

text \<open>
  C2 as stated fails: with two devices enumerated, construction with index \<open>-1\<close>
  does not fail.
\<close>

theorem init_accepts_negative_index:
  "VideoCapturer_init Windows [''cam0'', ''cam1''] (- 1) =
     Inr \<lparr>device_index = - 1, frame_callback = None, current_frame = None,
          frame_ready = False, is_running = False, cap = None,
          graph = Some [''cam0'', ''cam1'']\<rparr>"
  by (simp add: VideoCapturer_init_def)

text \<open>
  C3. In \<open>start\<close>, a candidate whose predecessors in the probe list all failed (the
  open raised, or the object came back not opened) is itself attempted: no failure ends
  the scan. Every candidate up to and including that one, the last of the list too,
  whose open came back as an object that is not opened has had that object released.
  And \<open>start\<close> returns a value: no exception leaves it.
\<close>

theorem failed_probe_is_isolated:
  assumes "cs = capture_methods plat (device_index self)"
      and "j < length cs"
      and "\<forall>j'<j. probe_fails (cv2_VideoCapture env j' (fst (cs ! j')) (snd (cs ! j')))"
  shows "\<not> isl (fst (VideoCapturer_start env plat w h fps self)) \<and>
         EvOpen j (fst (cs ! j)) (snd (cs ! j))
           \<in> set (fst (snd (VideoCapturer_start env plat w h fps self))) \<and>
         (\<forall>j'\<le>j. cv2_VideoCapture env j' (fst (cs ! j')) (snd (cs ! j')) = OpenReturns False \<longrightarrow>
            EvRelease (Device \<lparr>vc_attempt = j', vc_index = fst (cs ! j'), vc_backend = snd (cs ! j'),
              vc_opened = False\<rparr>) \<in> set (fst (snd (VideoCapturer_start env plat w h fps self))))"
proof (intro conjI allI impI)
  show "\<not> isl (fst (VideoCapturer_start env plat w h fps self))" by (rule start_returns)
next
  from assms(3)
  have "\<forall>j'<j. probe_fails (cv2_VideoCapture env (0 + j') (fst (cs ! j')) (snd (cs ! j')))"
    by simp
  from probe_attempts [OF assms(2) this, of "cap self"] start_events_probe [of env plat self w h fps]
  show "EvOpen j (fst (cs ! j)) (snd (cs ! j))
      \<in> set (fst (snd (VideoCapturer_start env plat w h fps self)))"
    unfolding assms(1) by auto
next
  fix j' assume le: "j' \<le> j"
    and un: "cv2_VideoCapture env j' (fst (cs ! j')) (snd (cs ! j')) = OpenReturns False"
  from le assms(2) have len: "j' < length cs" by simp
  from le assms(3)
  have before: "\<forall>i<j'. probe_fails (cv2_VideoCapture env (0 + i) (fst (cs ! i)) (snd (cs ! i)))"
    by simp
  from un have un0: "cv2_VideoCapture env (0 + j') (fst (cs ! j')) (snd (cs ! j')) = OpenReturns False"
    by simp
  from probe_releases [OF len before un0, of "cap self"] start_events_probe [of env plat self w h fps]
  show "EvRelease (Device \<lparr>vc_attempt = j', vc_index = fst (cs ! j'), vc_backend = snd (cs ! j'),
              vc_opened = False\<rparr>) \<in> set (fst (snd (VideoCapturer_start env plat w h fps self)))"
    unfolding assms(1) by auto
qed

text \<open>
  On Windows with index 1, where no candidate opens, the first and the third open
  raise and the second and the last return an object that is not opened: the last
  candidate \<open>(0, CAP_ANY)\<close> is attempted, its object and the second one's are released,
  and \<open>start\<close> returns \<open>True\<close>.
\<close>

theorem failed_probe_is_isolated_witness:
  "fst (VideoCapturer_start env_none_opens Windows 2 1 60
          \<lparr>device_index = 1, frame_callback = None, current_frame = None, frame_ready = False,
           is_running = False, cap = None, graph = Some [''cam0'', ''cam1'']\<rparr>) = Inr True \<and>
   EvOpen 3 0 CAP_ANY
     \<in> set (fst (snd (VideoCapturer_start env_none_opens Windows 2 1 60
          \<lparr>device_index = 1, frame_callback = None, current_frame = None, frame_ready = False,
           is_running = False, cap = None, graph = Some [''cam0'', ''cam1'']\<rparr>))) \<and>
   EvRelease (Device \<lparr>vc_attempt = 3, vc_index = 0, vc_backend = CAP_ANY, vc_opened = False\<rparr>)
     \<in> set (fst (snd (VideoCapturer_start env_none_opens Windows 2 1 60
          \<lparr>device_index = 1, frame_callback = None, current_frame = None, frame_ready = False,
           is_running = False, cap = None, graph = Some [''cam0'', ''cam1'']\<rparr>))) \<and>
   EvRelease (Device \<lparr>vc_attempt = 1, vc_index = 1, vc_backend = CAP_ANY, vc_opened = False\<rparr>)
     \<in> set (fst (snd (VideoCapturer_start env_none_opens Windows 2 1 60
          \<lparr>device_index = 1, frame_callback = None, current_frame = None, frame_ready = False,
           is_running = False, cap = None, graph = Some [''cam0'', ''cam1'']\<rparr>)))"
proof -
  let ?self = "\<lparr>device_index = 1, frame_callback = None, current_frame = None, frame_ready = False,
           is_running = False, cap = None, graph = Some [''cam0'', ''cam1'']\<rparr>"
  let ?cs = "[(1, CAP_DSHOW), (1, CAP_ANY), (- 1, CAP_ANY), (0::int, CAP_ANY)]"
  have cs: "?cs = capture_methods Windows (device_index ?self)"
    by (simp add: capture_methods_def)
  have len: "3 < length ?cs" by simp
  have fails: "\<forall>j'<3. probe_fails (cv2_VideoCapture env_none_opens j' (fst (?cs ! j')) (snd (?cs ! j')))"
    by (simp add: env_none_opens_def probe_fails_def)
  have second: "cv2_VideoCapture env_none_opens 1 (fst (?cs ! 1)) (snd (?cs ! 1)) = OpenReturns False"
    and last: "cv2_VideoCapture env_none_opens 3 (fst (?cs ! 3)) (snd (?cs ! 3)) = OpenReturns False"
    by (simp_all add: env_none_opens_def)
  have r: "fst (VideoCapturer_start env_none_opens Windows 2 1 60 ?self) = Inr True"
    by (simp add: VideoCapturer_start_def start_try_def capture_methods_def env_none_opens_def
        handle_set_def handle_isOpened_def handle_release_def Let_def)
  note isolated = failed_probe_is_isolated [OF cs len fails, of 2 1 60]
  from isolated have attempted: "EvOpen 3 0 CAP_ANY
      \<in> set (fst (snd (VideoCapturer_start env_none_opens Windows 2 1 60 ?self)))"
    by simp
  from isolated [THEN conjunct2, THEN conjunct2, rule_format, of 3] last
  have released_last: "EvRelease (Device \<lparr>vc_attempt = 3, vc_index = 0, vc_backend = CAP_ANY, vc_opened = False\<rparr>)
      \<in> set (fst (snd (VideoCapturer_start env_none_opens Windows 2 1 60 ?self)))"
    by simp
  from isolated [THEN conjunct2, THEN conjunct2, rule_format, of 1] second
  have released: "EvRelease (Device \<lparr>vc_attempt = 1, vc_index = 1, vc_backend = CAP_ANY, vc_opened = False\<rparr>)
      \<in> set (fst (snd (VideoCapturer_start env_none_opens Windows 2 1 60 ?self)))"
    by simp
  from r attempted released_last released show ?thesis by simp
qed

text \<open>
  C4, as the code has it. On Windows the probe list has the shape of the
  specification: the requested index with DirectShow, the same index with the generic
  backend, then \<open>-1\<close> and \<open>0\<close> with the generic backend. On every other platform it is
  the requested index with the generic backend first and AVFoundation second, then index
  \<open>0\<close> with the generic backend and with AVFoundation. On every platform the list has
  four candidates, the first two carry the requested index and the last one index \<open>0\<close>.
\<close>

theorem capture_methods_by_platform:
  "universal_shape CAP_DSHOW idx (capture_methods Windows idx) \<and>
   capture_methods Windows idx = [(idx, CAP_DSHOW), (idx, CAP_ANY), (- 1, CAP_ANY), (0, CAP_ANY)] \<and>
   (plat \<noteq> Windows \<longrightarrow>
      capture_methods plat idx =
        [(idx, CAP_ANY), (idx, CAP_AVFOUNDATION), (0, CAP_ANY), (0, CAP_AVFOUNDATION)]) \<and>
   length (capture_methods plat idx) = 4 \<and>
   map fst (take 2 (capture_methods plat idx)) = [idx, idx] \<and>
   fst (last (capture_methods plat idx)) = 0"
  by (simp add: universal_shape_def capture_methods_def backend_specificity_def)

text \<open>The lists for index 3 on Linux and on macOS.\<close>

theorem capture_methods_by_platform_witness:
  "capture_methods Linux 3 = [(3, CAP_ANY), (3, CAP_AVFOUNDATION), (0, CAP_ANY), (0, CAP_AVFOUNDATION)] \<and>
   capture_methods Darwin 3 = [(3, CAP_ANY), (3, CAP_AVFOUNDATION), (0, CAP_ANY), (0, CAP_AVFOUNDATION)]"
  using capture_methods_by_platform [of 3 Linux] capture_methods_by_platform [of 3 Darwin]
  by simp

text \<open>
  C4 as stated fails: on macOS, whose native backend is AVFoundation, the list for
  index 1 does not have the shape of the specification (it starts with the generic
  backend and has no \<open>-1\<close>).
\<close>

theorem capture_methods_not_universal:
  "\<not> universal_shape CAP_AVFOUNDATION 1 (capture_methods Darwin 1)"
  by (simp add: universal_shape_def capture_methods_def backend_specificity_def)




text \<open>
  C6. When the capturer is running and its handle's \<open>read\<close> fails (its first
  component is false), \<open>read()\<close> returns \<open>(False, None)\<close>; it has called the handle's
  \<open>read\<close> and nothing else, so no callback; and the capturer is as it was, last frame
  included.
\<close>

theorem read_failure_leaves_state:
  assumes "is_running self" and "cap self = Some hnd"
      and "handle_read renv hnd = Inr (False, frame)"
  shows "VideoCapturer_read renv self = (Inr (False, None), [EvRead hnd], self)"
  using assms by (simp add: VideoCapturer_read_def)

text \<open>The capturer on the device opened at the third attempt, whose read fails.\<close>

theorem read_failure_leaves_state_witness:
  "VideoCapturer_read calm (VideoCapturer_set_frame_callback log_callback device_capturer) =
     (Inr (False, None),
      [EvRead (Device \<lparr>vc_attempt = 2, vc_index = - 1, vc_backend = CAP_ANY, vc_opened = True\<rparr>)],
      VideoCapturer_set_frame_callback log_callback device_capturer)"
proof -
  let ?self = "VideoCapturer_set_frame_callback log_callback device_capturer"
  let ?hnd = "Device \<lparr>vc_attempt = 2, vc_index = - 1, vc_backend = CAP_ANY, vc_opened = True\<rparr>"
  have 1: "is_running ?self" and 2: "cap ?self = Some ?hnd"
    by (simp_all add: VideoCapturer_set_frame_callback_def device_capturer_eq)
  have 3: "handle_read calm ?hnd = Inr (False, None)"
    by (simp add: handle_read_def calm_def)
  from read_failure_leaves_state [OF 1 2 3] show ?thesis .
qed

text \<open>
  C7. A capturer that is not running, or holds no handle, answers \<open>read()\<close> with
  \<open>(False, None)\<close>, calls nothing and is left as it was. After \<open>release()\<close>, from
  any state at all, \<open>read()\<close> does so.
\<close>

theorem read_when_stopped:
  "(\<not> is_running self \<or> cap self = None \<longrightarrow>
      VideoCapturer_read renv self = (Inr (False, None), [], self)) \<and>
   VideoCapturer_read renv (snd (snd (VideoCapturer_release self))) =
     (Inr (False, None), [], snd (snd (VideoCapturer_release self)))"
  by (cases "is_running self \<and> cap self \<noteq> None")
     (auto simp: VideoCapturer_read_def VideoCapturer_release_def)

text \<open>
  A constructed capturer that was never started, and the capturer on the dummy camera
  once released (its last two fields are then cleared), on a host whose device would
  have a frame.
\<close>

theorem read_when_stopped_witness:
  "VideoCapturer_read (calm\<lparr>dev_read := (True, None)\<rparr>) fresh_capturer = (Inr (False, None), [], fresh_capturer) \<and>
   VideoCapturer_read (calm\<lparr>dev_read := (True, None)\<rparr>) (dummy_capturer\<lparr>is_running := False, cap := None\<rparr>) =
     (Inr (False, None), [], dummy_capturer\<lparr>is_running := False, cap := None\<rparr>)"
proof -
  have 1: "\<not> is_running fresh_capturer" by (simp add: fresh_capturer_eq)
  have 2: "snd (snd (VideoCapturer_release dummy_capturer)) =
      dummy_capturer\<lparr>is_running := False, cap := None\<rparr>"
    by (simp add: VideoCapturer_release_def dummy_capturer_eq)
  from read_when_stopped [of fresh_capturer "calm\<lparr>dev_read := (True, None)\<rparr>"] 1
    read_when_stopped [of dummy_capturer "calm\<lparr>dev_read := (True, None)\<rparr>"]
  show ?thesis unfolding 2 by simp
qed

text \<open>
  C8. \<open>release()\<close> of a capturer that is not running calls nothing and changes
  nothing. Of a running capturer with a handle it calls the handle's \<open>release\<close> once,
  clears the handle and the running flag. A second \<open>release()\<close>, after a first one from
  any state, returns, calls nothing (the handle is not released again) and changes
  nothing.
\<close>

theorem release_idempotent:
  "(\<not> is_running self \<longrightarrow> VideoCapturer_release self = (Inr (), [], self)) \<and>
   (is_running self \<and> cap self = Some hnd \<longrightarrow>
      VideoCapturer_release self =
        (Inr (), [EvRelease hnd], self\<lparr>is_running := False, cap := None\<rparr>)) \<and>
   VideoCapturer_release (snd (snd (VideoCapturer_release self))) =
     (Inr (), [], snd (snd (VideoCapturer_release self)))"
  by (simp add: VideoCapturer_release_def)

text \<open>The capturer on the dummy camera, released twice; a fresh one, released.\<close>

theorem release_idempotent_witness:
  "VideoCapturer_release dummy_capturer =
     (Inr (), [EvRelease (Dummy \<lparr>width = 2, height = 1, is_open = True\<rparr>)],
      dummy_capturer\<lparr>is_running := False, cap := None\<rparr>) \<and>
   VideoCapturer_release (dummy_capturer\<lparr>is_running := False, cap := None\<rparr>) =
     (Inr (), [], dummy_capturer\<lparr>is_running := False, cap := None\<rparr>) \<and>
   VideoCapturer_release fresh_capturer = (Inr (), [], fresh_capturer)"
proof -
  have 1: "is_running dummy_capturer \<and>
      cap dummy_capturer = Some (Dummy \<lparr>width = 2, height = 1, is_open = True\<rparr>)"
    by (simp add: dummy_capturer_eq)
  have 2: "\<not> is_running fresh_capturer" by (simp add: fresh_capturer_eq)
  note first = release_idempotent [of dummy_capturer "Dummy \<lparr>width = 2, height = 1, is_open = True\<rparr>"]
  from first 1 have a: "VideoCapturer_release dummy_capturer =
     (Inr (), [EvRelease (Dummy \<lparr>width = 2, height = 1, is_open = True\<rparr>)],
      dummy_capturer\<lparr>is_running := False, cap := None\<rparr>)"
    by blast
  from first have "VideoCapturer_release (snd (snd (VideoCapturer_release dummy_capturer))) =
     (Inr (), [], snd (snd (VideoCapturer_release dummy_capturer)))"
    by blast
  then have b: "VideoCapturer_release (dummy_capturer\<lparr>is_running := False, cap := None\<rparr>) =
     (Inr (), [], dummy_capturer\<lparr>is_running := False, cap := None\<rparr>)"
    unfolding a by simp
  from release_idempotent [of fresh_capturer] 2
  have c: "VideoCapturer_release fresh_capturer = (Inr (), [], fresh_capturer)" by blast
  from a b c show ?thesis by blast
qed

text \<open>
  C9. In every state a caller can reach with the constructor and the methods
  \<open>start\<close>, \<open>read\<close>, \<open>release\<close> and \<open>set_frame_callback\<close>, a capturer that is
  running holds a handle, and its \<open>read()\<close> calls \<open>read\<close> of that handle.
\<close>

theorem running_capturer_holds_handle:
  assumes "reachable self" and "is_running self"
  shows "\<exists>hnd. cap self = Some hnd \<and> EvRead hnd \<in> set (fst (snd (VideoCapturer_read renv self)))"
proof -
  from running_has_handle [OF assms(1)] assms(2) obtain hnd where h: "cap self = Some hnd" by auto
  with assms(2) have "EvRead hnd \<in> set (fst (snd (VideoCapturer_read renv self)))"
    by (auto simp: VideoCapturer_read_def Let_def split: sum.splits option.splits prod.splits)
  with h show ?thesis by blast
qed

text \<open>The capturer on the dummy camera is reachable and running.\<close>

theorem running_capturer_holds_handle_witness:
  "reachable dummy_capturer \<and> is_running dummy_capturer \<and>
   (\<exists>hnd. cap dummy_capturer = Some hnd \<and>
      EvRead hnd \<in> set (fst (snd (VideoCapturer_read calm dummy_capturer))))"
proof -
  have 1: "is_running dummy_capturer" by (simp add: dummy_capturer_eq)
  from running_capturer_holds_handle [OF reachable_dummy_capturer 1, of calm]
    reachable_dummy_capturer 1
  show ?thesis by blast
qed

text \<open>
  C10. When the handle's \<open>read\<close> succeeds and the registered callback is called on
  the frame and raises, \<open>read()\<close> raises that exception, after the handle's \<open>read\<close>
  and the one call of the callback, and the capturer's last frame is already the new
  frame (the array the handle returned, with whatever the callback wrote into it before
  it raised).
\<close>

theorem callback_exception_propagates:
  assumes "is_running self" and "cap self = Some hnd"
      and "handle_read renv hnd = Inr (True, frame)"
      and "frame_callback self = Some cb" and "truthy cb"
      and "cb_raises renv cb frame = Some e"
  shows "VideoCapturer_read renv self =
           (Inl e, [EvRead hnd, EvCallback cb frame],
            self\<lparr>current_frame := map_option (cb_paints renv cb) frame\<rparr>)"
  using assms by (simp add: VideoCapturer_read_def call_def)

text \<open>The capturer on the dummy camera, with a callback that raises.\<close>

theorem callback_exception_propagates_witness:
  "VideoCapturer_read callback_raises
     (VideoCapturer_set_frame_callback log_callback dummy_capturer) =
     (Inl (Exception ''callback failed''),
      [EvRead (Dummy \<lparr>width = 2, height = 1, is_open = True\<rparr>),
       EvCallback log_callback (Some \<lparr>shape = [1, 2, 3], data = [0, 0, 0, 0, 0, 0]\<rparr>)],
      (VideoCapturer_set_frame_callback log_callback dummy_capturer)
        \<lparr>current_frame := Some \<lparr>shape = [1, 2, 3], data = [0, 0, 0, 0, 0, 0]\<rparr>\<rparr>)"
proof -
  let ?self = "VideoCapturer_set_frame_callback log_callback dummy_capturer"
  let ?hnd = "Dummy \<lparr>width = 2, height = 1, is_open = True\<rparr>"
  let ?frame = "Some \<lparr>shape = [1, 2, 3], data = [0, 0, 0, 0, 0, 0]\<rparr>"
  have 1: "is_running ?self" and 2: "cap ?self = Some ?hnd"
    and 4: "frame_callback ?self = Some log_callback"
    by (simp_all add: VideoCapturer_set_frame_callback_def dummy_capturer_eq)
  have 3: "handle_read callback_raises ?hnd = Inr (True, ?frame)"
    by (simp add: handle_read_def DummyCamera_read_def np_zeros_def NPY_MAX_INTP_def
        callback_raises_def calm_def numeral_eq_Suc)
  have 5: "truthy log_callback" by (simp add: log_callback_def)
  have 6: "cb_raises callback_raises log_callback ?frame = Some (Exception ''callback failed'')"
    by (simp add: callback_raises_def calm_def)
  have 7: "map_option (cb_paints callback_raises log_callback) ?frame = ?frame"
    by (simp add: callback_raises_def calm_def)
  from callback_exception_propagates [OF 1 2 3 4 5 6] show ?thesis unfolding 7 .
qed

end
